theory Spec2Isabelle
  imports Complex_Main "HOL-Library.FSet" "HOL-Library.Word"
begin

section \<open>The Python binding of the Klemm graph generator\<close>

text \<open>
  The development follows \<^verbatim>\<open>graphgen/klemm/klemm_graph_generator.cpp\<close>. The file
  holds the entry point \<^verbatim>\<open>GenerateKlemmGraph\<close> and three converters that turn the
  containers filled by \<^verbatim>\<open>build_network_klemm\<close> (declared in \<^verbatim>\<open>benchm.hpp\<close>, a header
  that is not among the files this development follows) into numpy arrays and tuples.

  \<^item> A C \<^verbatim>\<open>int\<close> is an \<open>int\<close>; the values a C program can hold are those of
    \<open>c_int_range\<close>.
  \<^item> \<^verbatim>\<open>std::set<int>\<close> is an \<open>int fset\<close>; iterating it from \<^verbatim>\<open>begin()\<close> to
    \<^verbatim>\<open>end()\<close> visits the elements in ascending order.
  \<^item> \<^verbatim>\<open>std::deque<T>\<close> is a list. \<^verbatim>\<open>operator[]\<close> beyond the size is undefined
    behaviour in C++; the model makes it the error \<open>DequeOutOfBounds\<close>.
  \<^item> \<^verbatim>\<open>std::map<int, double>\<close> is a map \<open>int \<rightharpoonup> 'd\<close>; \<^verbatim>\<open>at\<close> throws
    \<^verbatim>\<open>std::out_of_range\<close> on a missing key, the error \<open>OutOfRange\<close>.
  \<^item> \<^verbatim>\<open>npy_uint64\<close> is a \<open>64 word\<close>. The type of a \<^verbatim>\<open>double\<close> is left open
    (\<open>'d\<close>), and so is \<^verbatim>\<open>npy_float32\<close> (\<open>'f\<close>): the narrowing
    \<^verbatim>\<open>static_cast<npy_float32>\<close> is a parameter \<open>cast\<close> of the model.
  \<^item> A numpy array is its shape and its flat, C-contiguous buffer (the pointer
    \<^verbatim>\<open>data\<close> of the source is the variable \<open>cells\<close> of the fill loops).
    \<^verbatim>\<open>PyArray_SimpleNew\<close> returns uninitialised memory: the model takes the
    initial content of the buffer as a parameter \<open>junk\<close>. A failed allocation is
    not modelled.
  \<^item> The errors: \<open>ParseError\<close> is the \<^verbatim>\<open>NULL\<close> return of the entry point when
    its arguments do not parse; \<open>OutOfRange\<close> and \<open>DequeOutOfBounds\<close> are the two
    lookups above. \<open>InvalidParameter\<close> and \<open>DegenerateInput\<close> are the failures
    the specification names for the core; nothing in the binding raises them.
\<close>

datatype error =
  ParseError
  | OutOfRange
  | DequeOutOfBounds
  | InvalidParameter
  | DegenerateInput

record 'a ndarray =
  dims :: "nat list"
  data :: "'a list"

definition c_int_range :: "int \<Rightarrow> bool" where
  "c_int_range i = (- (2 ^ 31) \<le> i \<and> i < 2 ^ 31)"

definition set_begin_to_end :: "int fset \<Rightarrow> int list" where
  "set_begin_to_end head_set = sorted_list_of_fset head_set"

definition PyArray_SimpleNew :: "nat list \<Rightarrow> (nat \<Rightarrow> 'a) \<Rightarrow> 'a ndarray" where
  "PyArray_SimpleNew size_data junk =
     \<lparr>dims = size_data, data = map junk [0..<prod_list size_data]\<rparr>"

subsection \<open>Counting the edges\<close>

text \<open>
  Both array converters start with the same pair of nested iterator loops, which
  increments \<^verbatim>\<open>num_edges\<close> once for every head of every head set.
\<close>

fun count_heads :: "int list \<Rightarrow> nat \<Rightarrow> nat" where
  "count_heads [] num_edges = num_edges"
| "count_heads (head # rest) num_edges = count_heads rest (Suc num_edges)"

fun count_edges :: "int fset list \<Rightarrow> nat \<Rightarrow> nat" where
  "count_edges [] num_edges = num_edges"
| "count_edges (head_set # rest) num_edges =
     count_edges rest (count_heads (set_begin_to_end head_set) num_edges)"

subsection \<open>ConvertEdgeDequeToNumpyArray\<close>

text \<open>
  The inner loop stores \<^verbatim>\<open>tail\<close> (a \<^verbatim>\<open>size_t\<close>) and \<^verbatim>\<open>*head\<close> (an \<^verbatim>\<open>int\<close>,
  converted to \<^verbatim>\<open>npy_uint64\<close> modulo \<open>2 ^ 64\<close>) at \<^verbatim>\<open>edge_index\<close> and
  \<^verbatim>\<open>edge_index + 1\<close>, and advances \<^verbatim>\<open>edge_index\<close> by two.
\<close>

fun fill_edge_row ::
  "nat \<Rightarrow> int list \<Rightarrow> 64 word list \<times> nat \<Rightarrow> 64 word list \<times> nat" where
  "fill_edge_row tail [] st = st"
| "fill_edge_row tail (head # rest) (cells, edge_index) =
     fill_edge_row tail rest
       ((cells[edge_index := of_nat tail])[edge_index + 1 := word_of_int head],
        edge_index + 2)"

function fill_edges ::
  "int fset list \<Rightarrow> nat \<Rightarrow> 64 word list \<times> nat \<Rightarrow> 64 word list \<times> nat" where
  "fill_edges Eout tail st =
     (if tail < length Eout
      then fill_edges Eout (tail + 1)
             (fill_edge_row tail (set_begin_to_end (Eout ! tail)) st)
      else st)"
  by pat_completeness auto
termination
  by (relation "measure (\<lambda>(Eout, tail, st). length Eout - tail)") auto

declare fill_edges.simps [simp del]

definition ConvertEdgeDequeToNumpyArray ::
  "(nat \<Rightarrow> 64 word) \<Rightarrow> int fset list \<Rightarrow> 64 word ndarray" where
  "ConvertEdgeDequeToNumpyArray junk Eout =
     (let num_edges = count_edges Eout 0;
          py_array = PyArray_SimpleNew [num_edges, 2] junk
      in py_array\<lparr>data := fst (fill_edges Eout 0 (data py_array, 0))\<rparr>)"

subsection \<open>ConvertWeightMapToNumpyArray\<close>

text \<open>
  The inner loop evaluates \<^verbatim>\<open>Wout[tail].at(*head)\<close> once per head: the deque is
  indexed without a bounds check, the map lookup throws on a missing key.
\<close>

fun fill_weight_row ::
  "('d \<Rightarrow> 'f) \<Rightarrow> (int \<rightharpoonup> 'd) list \<Rightarrow> nat \<Rightarrow> int list \<Rightarrow> 'f list \<times> nat
     \<Rightarrow> error + 'f list \<times> nat" where
  "fill_weight_row cast Wout tail [] st = Inr st"
| "fill_weight_row cast Wout tail (head # rest) (cells, edge_index) =
     (if tail < length Wout
      then (case (Wout ! tail) head of
              None \<Rightarrow> Inl OutOfRange
            | Some w \<Rightarrow>
                fill_weight_row cast Wout tail rest
                  (cells[edge_index := cast w], edge_index + 1))
      else Inl DequeOutOfBounds)"

function fill_weights ::
  "('d \<Rightarrow> 'f) \<Rightarrow> (int \<rightharpoonup> 'd) list \<Rightarrow> int fset list \<Rightarrow> nat \<Rightarrow> 'f list \<times> nat
     \<Rightarrow> error + 'f list \<times> nat" where
  "fill_weights cast Wout Eout tail st =
     (if tail < length Eout
      then (case fill_weight_row cast Wout tail (set_begin_to_end (Eout ! tail)) st of
              Inl e \<Rightarrow> Inl e
            | Inr st' \<Rightarrow> fill_weights cast Wout Eout (tail + 1) st')
      else Inr st)"
  by pat_completeness auto
termination
  by (relation "measure (\<lambda>(cast, Wout, Eout, tail, st). length Eout - tail)") auto

declare fill_weights.simps [simp del]

definition ConvertWeightMapToNumpyArray ::
  "('d \<Rightarrow> 'f) \<Rightarrow> (nat \<Rightarrow> 'f) \<Rightarrow> (int \<rightharpoonup> 'd) list \<Rightarrow> int fset list
     \<Rightarrow> error + 'f ndarray" where
  "ConvertWeightMapToNumpyArray cast junk Wout Eout =
     (let num_edges = count_edges Eout 0;
          py_array = PyArray_SimpleNew [num_edges] junk
      in case fill_weights cast Wout Eout 0 (data py_array, 0) of
           Inl e \<Rightarrow> Inl e
         | Inr (cells, edge_index) \<Rightarrow> Inr (py_array\<lparr>data := cells\<rparr>))"

subsection \<open>ConvertMemberDequeToTuple\<close>

text \<open>
  One tuple per node, filled by index with the node's community labels
  (\<^verbatim>\<open>PyLong_FromLong\<close> of an \<^verbatim>\<open>int\<close> widened to \<^verbatim>\<open>long\<close>, which is exact).
\<close>

definition ConvertMemberDequeToTuple :: "int list list \<Rightarrow> int list list" where
  "ConvertMemberDequeToTuple member_list =
     map (\<lambda>member. map (\<lambda>iii. member_list ! member ! iii)
                      [0..<length (member_list ! member)])
       [0..<length member_list]"

subsection \<open>GenerateKlemmGraph\<close>

text \<open>
  The six arguments as \<^verbatim>\<open>PyArg_ParseTupleAndKeywords\<close> delivers them with the
  format \<^verbatim>\<open>"iidddi"\<close>. (The three \<^verbatim>\<open>double\<close> parameters are reals here: no
  theorem below depends on their rounding.)
\<close>

record klemm_args =
  num_nodes :: int
  clique_size :: int
  clique_linkage :: real
  muw :: real
  beta :: real
  seed :: int

text \<open>The three containers \<^verbatim>\<open>Eout\<close>, \<^verbatim>\<open>member_list\<close> and \<^verbatim>\<open>Wout\<close>.\<close>

type_synonym 'd graph_state = "int fset list \<times> int list list \<times> (int \<rightharpoonup> 'd) list"

text \<open>
  The entry point. \<open>parsed\<close> is \<open>None\<close> when the argument parser fails (the
  function then returns \<^verbatim>\<open>NULL\<close>). Otherwise the three containers are constructed
  empty and handed, with the six parameters, to \<^verbatim>\<open>build_network_klemm\<close>: the
  parameter \<open>build\<close>, which fills them or throws. The function has no
  \<^verbatim>\<open>try\<close> block, so an exception of \<open>build\<close> or of the weight converter
  leaves it and no tuple is made. The tuple holds the edge array, the member tuple
  and the weight array, in this order.
\<close>

definition GenerateKlemmGraph ::
  "(klemm_args \<Rightarrow> 'd graph_state \<Rightarrow> error + 'd graph_state) \<Rightarrow> ('d \<Rightarrow> 'f)
     \<Rightarrow> (nat \<Rightarrow> 64 word) \<Rightarrow> (nat \<Rightarrow> 'f) \<Rightarrow> klemm_args option
     \<Rightarrow> error + 64 word ndarray \<times> int list list \<times> 'f ndarray" where
  "GenerateKlemmGraph build cast junk_e junk_w parsed =
     (case parsed of
        None \<Rightarrow> Inl ParseError
      | Some a \<Rightarrow>
          (case build a ([], [], []) of
             Inl e \<Rightarrow> Inl e
           | Inr (Eout, member_list, Wout) \<Rightarrow>
               (let edge_array = ConvertEdgeDequeToNumpyArray junk_e Eout
                in case ConvertWeightMapToNumpyArray cast junk_w Wout Eout of
                     Inl e \<Rightarrow> Inl e
                   | Inr weight_array \<Rightarrow>
                       Inr (edge_array, ConvertMemberDequeToTuple member_list,
                            weight_array))))"

text \<open>
  The statements of \<^verbatim>\<open>GenerateKlemmGraph\<close> that construct a container, call a
  function or make the result, in the order in which a call executes them: the
  declarations of \<^verbatim>\<open>Eout\<close>, \<^verbatim>\<open>member_list\<close> and \<^verbatim>\<open>Wout\<close> (lines 34 to 36 of
  the source), the call of \<^verbatim>\<open>build_network_klemm\<close> (line 37), the three
  conversions (lines 39 to 41) and the tuple (lines 42 to 45). An exception ends
  the list where it is thrown; a failed parse returns before the first of them.
\<close>

datatype step =
  Construct_Eout
  | Construct_member_list
  | Construct_Wout
  | Call_build_network_klemm
  | Call_ConvertEdgeDequeToNumpyArray
  | Call_ConvertWeightMapToNumpyArray
  | Call_ConvertMemberDequeToTuple
  | Make_return_tuple

definition GenerateKlemmGraph_steps ::
  "(klemm_args \<Rightarrow> 'd graph_state \<Rightarrow> error + 'd graph_state) \<Rightarrow> ('d \<Rightarrow> 'f)
     \<Rightarrow> (nat \<Rightarrow> 64 word) \<Rightarrow> (nat \<Rightarrow> 'f) \<Rightarrow> klemm_args option \<Rightarrow> step list" where
  "GenerateKlemmGraph_steps build cast junk_e junk_w parsed =
     (case parsed of
        None \<Rightarrow> []
      | Some a \<Rightarrow>
          [Construct_Eout, Construct_member_list, Construct_Wout, Call_build_network_klemm]
          @ (case build a ([], [], []) of
               Inl e \<Rightarrow> []
             | Inr (Eout, member_list, Wout) \<Rightarrow>
                 [Call_ConvertEdgeDequeToNumpyArray, Call_ConvertWeightMapToNumpyArray]
                 @ (case ConvertWeightMapToNumpyArray cast junk_w Wout Eout of
                      Inl e \<Rightarrow> []
                    | Inr weight_array \<Rightarrow>
                        [Call_ConvertMemberDequeToTuple, Make_return_tuple])))"

subsection \<open>Reading the arrays\<close>

text \<open>
  The entries of the adjacency structure in the order of the fill loops: ascending
  \<^verbatim>\<open>tail\<close>, and for each tail its heads in ascending order.
\<close>

definition edges_from :: "int fset list \<Rightarrow> nat \<Rightarrow> (nat \<times> int) list" where
  "edges_from Eout k =
     concat (map (\<lambda>tail. map (Pair tail) (set_begin_to_end (Eout ! tail)))
               [k..<length Eout])"

definition edge_entries :: "int fset list \<Rightarrow> (nat \<times> int) list" where
  "edge_entries Eout = edges_from Eout 0"

text \<open>Row \<open>i\<close> of an \<open>E \<times> 2\<close> array is the pair of cells \<open>2 i\<close> and \<open>2 i + 1\<close>.\<close>

definition rows :: "'a ndarray \<Rightarrow> ('a \<times> 'a) list" where
  "rows a = map (\<lambda>i. (data a ! (2 * i), data a ! (2 * i + 1))) [0..<hd (dims a)]"

definition uint64_row :: "nat \<times> int \<Rightarrow> 64 word \<times> 64 word" where
  "uint64_row e = (of_nat (fst e), word_of_int (snd e))"

text \<open>The buffer of an \<open>E \<times> 2\<close> array holding the given entries, row after row.\<close>

definition flat_rows :: "(nat \<times> int) list \<Rightarrow> 64 word list" where
  "flat_rows es = concat (map (\<lambda>e. [of_nat (fst e), word_of_int (snd e)]) es)"

text \<open>
  What \<^verbatim>\<open>Wout[tail].at(head)\<close> finds: \<open>None\<close> when the deque has no element
  \<open>tail\<close> or the map has no key \<open>head\<close>.
\<close>

definition stored_weight :: "(int \<rightharpoonup> 'd) list \<Rightarrow> nat \<times> int \<Rightarrow> 'd option" where
  "stored_weight Wout e = (if fst e < length Wout then (Wout ! fst e) (snd e) else None)"

definition cast_weights ::
  "('d \<Rightarrow> 'f) \<Rightarrow> (int \<rightharpoonup> 'd) list \<Rightarrow> (nat \<times> int) list \<Rightarrow> 'f list" where
  "cast_weights cast Wout es = map (\<lambda>e. cast (the (stored_weight Wout e))) es"

text \<open>
  The order of the rows: by the first component, then by the second.
\<close>

definition row_before :: "('a::linorder) \<times> ('b::linorder) \<Rightarrow> 'a \<times> 'b \<Rightarrow> bool" where
  "row_before r s = (fst r < fst s \<or> (fst r = fst s \<and> snd r < snd s))"

subsection \<open>The core, as the specification describes it\<close>

text \<open>
  Modelled from the spec: the parameter check of \<^verbatim>\<open>build_network_klemm\<close>
  (\<^verbatim>\<open>benchm.hpp\<close>), which is not among the files followed here. Section 4.1: the
  grower fails with \<open>InvalidParameter\<close> when \<open>num_nodes < clique_size\<close>,
  \<open>clique_size < 2\<close>, or \<open>clique_linkage\<close> is outside \<open>[0,1]\<close>.
\<close>

definition invalid_grower_parameters :: "klemm_args \<Rightarrow> bool" where
  "invalid_grower_parameters a =
     (num_nodes a < clique_size a \<or> clique_size a < 2
      \<or> clique_linkage a < 0 \<or> 1 < clique_linkage a)"

text \<open>
  Modelled from the spec: the parameter check of the weight assigner inside
  \<^verbatim>\<open>build_network_klemm\<close>. Section 4.2: it fails with \<open>InvalidParameter\<close> when
  \<open>beta\<close> is outside \<open>[0,1]\<close> or \<open>muw \<le> 0\<close>.
\<close>

definition invalid_weight_parameters :: "klemm_args \<Rightarrow> bool" where
  "invalid_weight_parameters a = (beta a < 0 \<or> 1 < beta a \<or> muw a \<le> 0)"

text \<open>
  Modelled from the spec: the partition of a node's incident edges by the weight
  assigner inside \<^verbatim>\<open>build_network_klemm\<close>. Section 4.2: an edge is
  intra-community when both endpoints share a community label, inter-community
  otherwise.
\<close>

definition share_label :: "int list list \<Rightarrow> nat \<times> int \<Rightarrow> bool" where
  "share_label member_list e =
     (fst e < length member_list \<and> 0 \<le> snd e \<and> nat (snd e) < length member_list
      \<and> list_ex (\<lambda>c. c \<in> set (member_list ! nat (snd e))) (member_list ! fst e))"

text \<open>
  Modelled from the spec: the edges incident to a node, for the weight assigner
  inside \<^verbatim>\<open>build_network_klemm\<close> (an edge is an unordered pair, so the node may be
  either endpoint).
\<close>

definition incident :: "int fset list \<Rightarrow> nat \<Rightarrow> (nat \<times> int) list" where
  "incident Eout node = filter (\<lambda>e. fst e = node \<or> snd e = int node) (edge_entries Eout)"

text \<open>
  Modelled from the spec: the degeneracy check of the weight assigner inside
  \<^verbatim>\<open>build_network_klemm\<close>. Section 4.2: it fails with \<open>DegenerateInput\<close> when a
  node has zero intra-community or zero inter-community edges but a nonzero weight
  fraction is requested for that category; the fraction for the inter-community
  edges is \<open>beta\<close>, the one for the intra-community edges \<open>1 - beta\<close>.
\<close>

definition degenerate_input :: "int fset list \<Rightarrow> int list list \<Rightarrow> real \<Rightarrow> bool" where
  "degenerate_input Eout member_list b =
     list_ex (\<lambda>node.
         (filter (share_label member_list) (incident Eout node) = [] \<and> 1 - b \<noteq> 0)
         \<or> (filter (\<lambda>e. \<not> share_label member_list e) (incident Eout node) = [] \<and> b \<noteq> 0))
       [0..<length member_list]"

text \<open>
  Modelled from the spec: \<^verbatim>\<open>build_network_klemm\<close> (\<^verbatim>\<open>benchm.hpp\<close>), which is not
  among the files followed here. Sections 2, 4 and 7: parameters are checked before
  any growth step runs; the grower \<open>Grow(num_nodes, clique_size, clique_linkage,
  seed)\<close> yields the edges and the community lists; the weight assigner
  \<open>AssignWeights(edges, communities, muw, beta, seed)\<close> detects a degenerate input
  or yields the weights. The growth process and the drawing of the weights are left
  open: they are the parameters \<open>grow\<close> and \<open>assign_weights\<close>.
\<close>

definition build_network_klemm ::
  "(int \<Rightarrow> int \<Rightarrow> real \<Rightarrow> int \<Rightarrow> int fset list \<times> int list list)
     \<Rightarrow> (int fset list \<Rightarrow> int list list \<Rightarrow> real \<Rightarrow> real \<Rightarrow> int \<Rightarrow> (int \<rightharpoonup> 'd) list)
     \<Rightarrow> klemm_args \<Rightarrow> 'd graph_state \<Rightarrow> error + 'd graph_state" where
  "build_network_klemm grow assign_weights a st =
     (if invalid_grower_parameters a \<or> invalid_weight_parameters a
      then Inl InvalidParameter
      else (case grow (num_nodes a) (clique_size a) (clique_linkage a) (seed a) of
              (Eout, member_list) \<Rightarrow>
                if degenerate_input Eout member_list (beta a)
                then Inl DegenerateInput
                else Inr (Eout, member_list,
                          assign_weights Eout member_list (muw a) (beta a) (seed a))))"

section \<open>The fill loops compute the entries in order\<close>

lemma count_heads_eq: "count_heads hs n = n + length hs"
  by (induction hs arbitrary: n) auto

lemma length_set_begin_to_end: "length (set_begin_to_end S) = fcard S"
  by (simp add: set_begin_to_end_def sorted_list_of_fset.rep_eq fcard.rep_eq)

lemma count_edges_eq: "count_edges Eout n = n + sum_list (map fcard Eout)"
  by (induction Eout arbitrary: n) (auto simp: count_heads_eq length_set_begin_to_end)

lemma edges_from_ge: "length Eout \<le> k \<Longrightarrow> edges_from Eout k = []"
  by (simp add: edges_from_def)

lemma edges_from_step:
  "k < length Eout \<Longrightarrow>
   edges_from Eout k = map (Pair k) (set_begin_to_end (Eout ! k)) @ edges_from Eout (Suc k)"
  by (simp add: edges_from_def upt_conv_Cons)

lemma length_edges_from:
  "length (edges_from Eout k) = sum_list (map fcard (drop k Eout))"
proof (induction "length Eout - k" arbitrary: k)
  case 0
  then show ?case by (simp add: edges_from_ge)
next
  case (Suc n)
  then have k: "k < length Eout" by arith
  from Suc(2) have "n = length Eout - Suc k" by arith
  from Suc(1)[OF this] k show ?case
    by (simp add: edges_from_step length_set_begin_to_end Cons_nth_drop_Suc[symmetric])
qed

lemma length_edge_entries: "length (edge_entries Eout) = sum_list (map fcard Eout)"
  by (simp add: edge_entries_def length_edges_from)

lemma length_flat_rows: "length (flat_rows es) = 2 * length es"
  by (induction es) (auto simp: flat_rows_def)

lemma fill_edge_row_eq:
  "edge_index + 2 * length hs \<le> length cells \<Longrightarrow>
   fill_edge_row tail hs (cells, edge_index) =
     (take edge_index cells @ flat_rows (map (Pair tail) hs)
        @ drop (edge_index + 2 * length hs) cells,
      edge_index + 2 * length hs)"
proof (induction hs arbitrary: cells edge_index)
  case Nil
  then show ?case by (simp add: flat_rows_def)
next
  case (Cons h hs)
  let ?c = "(cells[edge_index := of_nat tail])[edge_index + 1 := word_of_int h]"
  from Cons.prems have len: "edge_index + 2 + 2 * length hs \<le> length ?c" by simp
  have tk: "take (edge_index + 2) ?c = take edge_index cells @ [of_nat tail, word_of_int h]"
    using Cons.prems
    by (simp add: take_Suc_conv_app_nth numeral_2_eq_2 nth_list_update)
  have dr: "drop (edge_index + 2 + 2 * length hs) ?c = drop (edge_index + 2 + 2 * length hs) cells"
    by simp
  show ?case
    using Cons.IH[OF len] tk dr by (simp add: flat_rows_def)
qed

lemma fill_edges_eq:
  "edge_index + 2 * length (edges_from Eout k) \<le> length cells \<Longrightarrow>
   fill_edges Eout k (cells, edge_index) =
     (take edge_index cells @ flat_rows (edges_from Eout k)
        @ drop (edge_index + 2 * length (edges_from Eout k)) cells,
      edge_index + 2 * length (edges_from Eout k))"
proof (induction "length Eout - k" arbitrary: k cells edge_index)
  case 0
  then show ?case
    by (subst fill_edges.simps) (simp add: edges_from_ge flat_rows_def)
next
  case (Suc n)
  then have k: "k < length Eout" by arith
  let ?hs = "set_begin_to_end (Eout ! k)"
  let ?m = "length (edges_from Eout (Suc k))"
  have split: "edges_from Eout k = map (Pair k) ?hs @ edges_from Eout (Suc k)"
    using k by (rule edges_from_step)
  from Suc.prems split have room: "edge_index + 2 * length ?hs + 2 * ?m \<le> length cells"
    by simp
  then have row: "fill_edge_row k ?hs (cells, edge_index) =
      (take edge_index cells @ flat_rows (map (Pair k) ?hs)
         @ drop (edge_index + 2 * length ?hs) cells, edge_index + 2 * length ?hs)"
    by (intro fill_edge_row_eq) simp
  let ?c = "take edge_index cells @ flat_rows (map (Pair k) ?hs)
         @ drop (edge_index + 2 * length ?hs) cells"
  have lenc: "length ?c = length cells"
    using room by (simp add: length_flat_rows)
  from Suc(2) have n: "n = length Eout - Suc k" by arith
  have rest: "fill_edges Eout (Suc k) (?c, edge_index + 2 * length ?hs) =
     (take (edge_index + 2 * length ?hs) ?c @ flat_rows (edges_from Eout (Suc k))
        @ drop (edge_index + 2 * length ?hs + 2 * ?m) ?c,
      edge_index + 2 * length ?hs + 2 * ?m)"
    using room lenc by (intro Suc(1)[OF n]) simp
  have tk: "take (edge_index + 2 * length ?hs) ?c =
      take edge_index cells @ flat_rows (map (Pair k) ?hs)"
    using room by (simp add: length_flat_rows)
  have dr: "drop (edge_index + 2 * length ?hs + 2 * ?m) ?c =
      drop (edge_index + 2 * length ?hs + 2 * ?m) cells"
    using room by (simp add: length_flat_rows add.commute add.left_commute)
  have fl: "flat_rows (edges_from Eout k) =
      flat_rows (map (Pair k) ?hs) @ flat_rows (edges_from Eout (Suc k))"
    by (simp add: split flat_rows_def)
  have len: "length (edges_from Eout k) = length ?hs + ?m"
    by (simp add: split)
  have "fill_edges Eout k (cells, edge_index) =
      fill_edges Eout (Suc k) (?c, edge_index + 2 * length ?hs)"
    using k row by (subst fill_edges.simps) simp
  also have "\<dots> = (take edge_index cells @ flat_rows (edges_from Eout k)
        @ drop (edge_index + 2 * length ?hs + 2 * ?m) cells,
      edge_index + 2 * length ?hs + 2 * ?m)"
    unfolding rest tk dr fl by simp
  also have "edge_index + 2 * length ?hs + 2 * ?m
      = edge_index + 2 * length (edges_from Eout k)"
    unfolding len by simp
  finally show ?case .
qed

lemma ConvertEdgeDequeToNumpyArray_eq:
  "ConvertEdgeDequeToNumpyArray junk Eout =
     \<lparr>dims = [length (edge_entries Eout), 2], data = flat_rows (edge_entries Eout)\<rparr>"
proof -
  let ?n = "length (edges_from Eout 0)"
  let ?cells = "map junk [0..<prod_list [?n, 2]]"
  have cnt: "count_edges Eout 0 = ?n"
    by (simp add: count_edges_eq length_edges_from)
  have room: "0 + 2 * ?n \<le> length ?cells"
    by simp
  have "fst (fill_edges Eout 0 (?cells, 0)) =
      take 0 ?cells @ flat_rows (edges_from Eout 0) @ drop (0 + 2 * ?n) ?cells"
    unfolding fill_edges_eq[OF room] by (rule fst_conv)
  also have "\<dots> = flat_rows (edges_from Eout 0)"
    by simp
  finally show ?thesis
    unfolding ConvertEdgeDequeToNumpyArray_def PyArray_SimpleNew_def Let_def cnt
      edge_entries_def
    by simp
qed

lemma flat_rows_nth:
  "i < length es \<Longrightarrow>
   flat_rows es ! (2 * i) = of_nat (fst (es ! i)) \<and>
   flat_rows es ! (2 * i + 1) = word_of_int (snd (es ! i))"
proof (induction es arbitrary: i)
  case Nil
  then show ?case by simp
next
  case (Cons e es)
  have unfold: "flat_rows (e # es) = of_nat (fst e) # word_of_int (snd e) # flat_rows es"
    by (simp add: flat_rows_def)
  show ?case
  proof (cases i)
    case 0
    then show ?thesis unfolding unfold by simp
  next
    case (Suc j)
    with Cons.prems have "j < length es" by simp
    from Cons.IH[OF this] Suc show ?thesis unfolding unfold by simp
  qed
qed

lemma rows_flat_rows:
  "rows \<lparr>dims = [length es, 2], data = flat_rows es\<rparr> = map uint64_row es"
proof (rule nth_equalityI)
  show "length (rows \<lparr>dims = [length es, 2], data = flat_rows es\<rparr>) = length (map uint64_row es)"
    by (simp add: rows_def)
next
  fix i
  assume "i < length (rows \<lparr>dims = [length es, 2], data = flat_rows es\<rparr>)"
  then have i: "i < length es" by (simp add: rows_def)
  then show "rows \<lparr>dims = [length es, 2], data = flat_rows es\<rparr> ! i = map uint64_row es ! i"
    using flat_rows_nth[OF i] by (simp add: rows_def uint64_row_def)
qed

lemma rows_ConvertEdge:
  "rows (ConvertEdgeDequeToNumpyArray junk Eout) = map uint64_row (edge_entries Eout)"
  by (simp add: ConvertEdgeDequeToNumpyArray_eq rows_flat_rows)

lemma fill_weight_row_ok:
  "\<forall>h\<in>set hs. stored_weight Wout (tail, h) \<noteq> None \<Longrightarrow>
   edge_index + length hs \<le> length cells \<Longrightarrow>
   fill_weight_row cast Wout tail hs (cells, edge_index) =
     Inr (take edge_index cells @ cast_weights cast Wout (map (Pair tail) hs)
            @ drop (edge_index + length hs) cells,
          edge_index + length hs)"
proof (induction hs arbitrary: cells edge_index)
  case Nil
  then show ?case by (simp add: cast_weights_def)
next
  case (Cons h hs)
  from Cons.prems(1) obtain w where tl: "tail < length Wout" and w: "(Wout ! tail) h = Some w"
    by (auto simp: stored_weight_def split: if_splits)
  let ?c = "cells[edge_index := cast w]"
  from Cons.prems have len: "Suc edge_index + length hs \<le> length ?c" by simp
  from Cons.prems have rest: "\<forall>h\<in>set hs. stored_weight Wout (tail, h) \<noteq> None" by simp
  have tk: "take (Suc edge_index) ?c = take edge_index cells @ [cast w]"
    using Cons.prems(2) by (simp add: take_Suc_conv_app_nth)
  have dr: "drop (Suc edge_index + length hs) ?c = drop (Suc edge_index + length hs) cells"
    by simp
  have hd: "cast_weights cast Wout (map (Pair tail) (h # hs)) =
      cast w # cast_weights cast Wout (map (Pair tail) hs)"
    using tl w by (simp add: cast_weights_def stored_weight_def)
  have "fill_weight_row cast Wout tail (h # hs) (cells, edge_index) =
      fill_weight_row cast Wout tail hs (?c, Suc edge_index)"
    using tl w by simp
  also note Cons.IH[OF rest len]
  finally show ?case
    unfolding tk dr hd by simp
qed

lemma fill_weight_row_fail:
  "\<exists>h\<in>set hs. stored_weight Wout (tail, h) = None \<Longrightarrow>
   \<exists>e. fill_weight_row cast Wout tail hs st = Inl e"
proof (induction hs arbitrary: st)
  case Nil
  then show ?case by simp
next
  case (Cons h hs)
  obtain cells edge_index where st: "st = (cells, edge_index)" by (cases st)
  show ?case
  proof (cases "stored_weight Wout (tail, h)")
    case None
    then show ?thesis
      unfolding st by (auto simp: stored_weight_def split: if_splits option.splits)
  next
    case (Some w)
    with Cons.prems have "\<exists>h\<in>set hs. stored_weight Wout (tail, h) = None" by auto
    from Cons.IH[OF this] Some show ?thesis
      unfolding st by (auto simp: stored_weight_def split: if_splits option.splits)
  qed
qed

lemma cast_weights_append:
  "cast_weights cast Wout (xs @ ys) = cast_weights cast Wout xs @ cast_weights cast Wout ys"
  by (simp add: cast_weights_def)

lemma length_cast_weights: "length (cast_weights cast Wout es) = length es"
  by (simp add: cast_weights_def)

lemma fill_weights_ok:
  "\<forall>e\<in>set (edges_from Eout k). stored_weight Wout e \<noteq> None \<Longrightarrow>
   edge_index + length (edges_from Eout k) \<le> length cells \<Longrightarrow>
   fill_weights cast Wout Eout k (cells, edge_index) =
     Inr (take edge_index cells @ cast_weights cast Wout (edges_from Eout k)
            @ drop (edge_index + length (edges_from Eout k)) cells,
          edge_index + length (edges_from Eout k))"
proof (induction "length Eout - k" arbitrary: k cells edge_index)
  case 0
  then show ?case
    by (subst fill_weights.simps) (simp add: edges_from_ge cast_weights_def)
next
  case (Suc n)
  then have k: "k < length Eout" by arith
  let ?hs = "set_begin_to_end (Eout ! k)"
  let ?m = "length (edges_from Eout (Suc k))"
  have split: "edges_from Eout k = map (Pair k) ?hs @ edges_from Eout (Suc k)"
    using k by (rule edges_from_step)
  have len: "length (edges_from Eout k) = length ?hs + ?m"
    by (simp add: split)
  from Suc.prems(2) have room: "edge_index + length ?hs + ?m \<le> length cells"
    unfolding len by simp
  have here: "\<forall>h\<in>set ?hs. stored_weight Wout (k, h) \<noteq> None"
    using Suc.prems(1) unfolding split by auto
  have later: "\<forall>e\<in>set (edges_from Eout (Suc k)). stored_weight Wout e \<noteq> None"
    using Suc.prems(1) unfolding split by auto
  let ?c = "take edge_index cells @ cast_weights cast Wout (map (Pair k) ?hs)
         @ drop (edge_index + length ?hs) cells"
  have row: "fill_weight_row cast Wout k ?hs (cells, edge_index) =
      Inr (?c, edge_index + length ?hs)"
    using room by (intro fill_weight_row_ok[OF here]) simp
  have lenc: "length ?c = length cells"
    using room by (simp add: length_cast_weights)
  from Suc(2) have n: "n = length Eout - Suc k" by arith
  have room': "edge_index + length ?hs + ?m \<le> length ?c"
    unfolding lenc by (rule room)
  have rest: "fill_weights cast Wout Eout (Suc k) (?c, edge_index + length ?hs) =
     Inr (take (edge_index + length ?hs) ?c @ cast_weights cast Wout (edges_from Eout (Suc k))
        @ drop (edge_index + length ?hs + ?m) ?c,
      edge_index + length ?hs + ?m)"
    by (rule Suc(1)[OF n later room'])
  have tk: "take (edge_index + length ?hs) ?c =
      take edge_index cells @ cast_weights cast Wout (map (Pair k) ?hs)"
    using room by (simp add: length_cast_weights)
  have dr: "drop (edge_index + length ?hs + ?m) ?c =
      drop (edge_index + length ?hs + ?m) cells"
    using room by (simp add: length_cast_weights add.commute add.left_commute)
  have fl: "cast_weights cast Wout (edges_from Eout k) =
      cast_weights cast Wout (map (Pair k) ?hs) @ cast_weights cast Wout (edges_from Eout (Suc k))"
    unfolding split by (rule cast_weights_append)
  have "fill_weights cast Wout Eout k (cells, edge_index) =
      fill_weights cast Wout Eout (Suc k) (?c, edge_index + length ?hs)"
    using k row by (subst fill_weights.simps) simp
  also have "\<dots> = Inr (take edge_index cells @ cast_weights cast Wout (edges_from Eout k)
        @ drop (edge_index + length ?hs + ?m) cells,
      edge_index + length ?hs + ?m)"
    unfolding rest tk dr fl by simp
  also have "edge_index + length ?hs + ?m = edge_index + length (edges_from Eout k)"
    unfolding len by simp
  finally show ?case .
qed

lemma fill_weights_fail:
  "\<exists>e\<in>set (edges_from Eout k). stored_weight Wout e = None \<Longrightarrow>
   \<exists>e. fill_weights cast Wout Eout k st = Inl e"
proof (induction "length Eout - k" arbitrary: k st)
  case 0
  then show ?case by (simp add: edges_from_ge)
next
  case (Suc n)
  then have k: "k < length Eout" by arith
  let ?hs = "set_begin_to_end (Eout ! k)"
  have split: "edges_from Eout k = map (Pair k) ?hs @ edges_from Eout (Suc k)"
    using k by (rule edges_from_step)
  from Suc(2) have n: "n = length Eout - Suc k" by arith
  show ?case
  proof (cases "fill_weight_row cast Wout k ?hs st")
    case (Inl e)
    then show ?thesis using k by (subst fill_weights.simps) simp
  next
    case (Inr st')
    have "\<not> (\<exists>h\<in>set ?hs. stored_weight Wout (k, h) = None)"
    proof
      assume "\<exists>h\<in>set ?hs. stored_weight Wout (k, h) = None"
      from fill_weight_row_fail[OF this, of cast st] Inr show False by simp
    qed
    with Suc.prems have "\<exists>e\<in>set (edges_from Eout (Suc k)). stored_weight Wout e = None"
      unfolding split by auto
    from Suc(1)[OF n this, of st'] Inr k show ?thesis
      by (subst fill_weights.simps) simp
  qed
qed

lemma ConvertWeightMapToNumpyArray_ok:
  assumes "\<forall>e\<in>set (edge_entries Eout). stored_weight Wout e \<noteq> None"
  shows "ConvertWeightMapToNumpyArray cast junk Wout Eout =
     Inr \<lparr>dims = [length (edge_entries Eout)],
          data = cast_weights cast Wout (edge_entries Eout)\<rparr>"
proof -
  let ?n = "length (edges_from Eout 0)"
  let ?cells = "map junk [0..<prod_list [?n]]"
  have cnt: "count_edges Eout 0 = ?n"
    by (simp add: count_edges_eq length_edges_from)
  have room: "0 + ?n \<le> length ?cells"
    by simp
  have all: "\<forall>e\<in>set (edges_from Eout 0). stored_weight Wout e \<noteq> None"
    using assms by (simp add: edge_entries_def)
  have "fill_weights cast Wout Eout 0 (?cells, 0) =
      Inr (take 0 ?cells @ cast_weights cast Wout (edges_from Eout 0) @ drop (0 + ?n) ?cells,
           0 + ?n)"
    by (rule fill_weights_ok[OF all room])
  also have "\<dots> = Inr (cast_weights cast Wout (edges_from Eout 0), ?n)"
    by simp
  finally show ?thesis
    unfolding ConvertWeightMapToNumpyArray_def PyArray_SimpleNew_def Let_def cnt
      edge_entries_def
    by simp
qed

lemma ConvertWeightMapToNumpyArray_fail:
  assumes "\<exists>e\<in>set (edge_entries Eout). stored_weight Wout e = None"
  shows "\<exists>e. ConvertWeightMapToNumpyArray cast junk Wout Eout = Inl e"
proof -
  from assms have "\<exists>e\<in>set (edges_from Eout 0). stored_weight Wout e = None"
    by (simp add: edge_entries_def)
  from fill_weights_fail[OF this]
  obtain e where "fill_weights cast Wout Eout 0
      (data (PyArray_SimpleNew [count_edges Eout 0] junk), 0) = Inl e"
    by blast
  then show ?thesis
    unfolding ConvertWeightMapToNumpyArray_def Let_def by simp
qed

lemma ConvertWeightMapToNumpyArray_Inr_iff:
  "(\<exists>a. ConvertWeightMapToNumpyArray cast junk Wout Eout = Inr a) \<longleftrightarrow>
   (\<forall>e\<in>set (edge_entries Eout). stored_weight Wout e \<noteq> None)"
proof
  assume ok: "\<exists>a. ConvertWeightMapToNumpyArray cast junk Wout Eout = Inr a"
  show "\<forall>e\<in>set (edge_entries Eout). stored_weight Wout e \<noteq> None"
  proof (rule ccontr)
    assume "\<not> (\<forall>e\<in>set (edge_entries Eout). stored_weight Wout e \<noteq> None)"
    then have "\<exists>e\<in>set (edge_entries Eout). stored_weight Wout e = None" by simp
    from ConvertWeightMapToNumpyArray_fail[OF this, of cast junk] ok show False by auto
  qed
next
  assume "\<forall>e\<in>set (edge_entries Eout). stored_weight Wout e \<noteq> None"
  from ConvertWeightMapToNumpyArray_ok[OF this] show
    "\<exists>a. ConvertWeightMapToNumpyArray cast junk Wout Eout = Inr a" by blast
qed

lemma set_set_begin_to_end: "set (set_begin_to_end S) = fset S"
  by (simp add: set_begin_to_end_def)

lemma set_edges_from:
  "set (edges_from Eout k) =
     {(tail, head). k \<le> tail \<and> tail < length Eout \<and> head \<in> fset (Eout ! tail)}"
  by (auto simp: edges_from_def set_set_begin_to_end)

lemma set_edge_entries:
  "set (edge_entries Eout) = {(tail, head). tail < length Eout \<and> head \<in> fset (Eout ! tail)}"
  by (simp add: edge_entries_def set_edges_from)

lemma weights_present_iff:
  "(\<forall>e\<in>set (edge_entries Eout). stored_weight Wout e \<noteq> None) \<longleftrightarrow>
   (\<forall>tail<length Eout. \<forall>head\<in>fset (Eout ! tail).
       tail < length Wout \<and> head \<in> dom (Wout ! tail))"
  unfolding set_edge_entries by (auto simp: stored_weight_def split: if_splits)

lemma uint64_less:
  assumes "int tail < head" "head < 2 ^ 64"
  shows "(of_nat tail :: 64 word) < word_of_int head"
proof -
  have "(of_nat tail :: 64 word) = word_of_int (int tail)"
    by simp
  moreover have "(word_of_int (int tail) :: 64 word) < word_of_int head"
    unfolding word_of_int_less_iff using assms
    by (simp add: take_bit_int_eq_self)
  ultimately show ?thesis by (simp only:)
qed

lemma distinct_set_begin_to_end: "distinct (set_begin_to_end S)"
  by (simp add: set_begin_to_end_def sorted_list_of_fset.rep_eq)

lemma sorted_set_begin_to_end: "sorted_wrt (<) (set_begin_to_end S)"
  by (simp add: set_begin_to_end_def sorted_list_of_fset.rep_eq)

lemma sorted_edges_from: "sorted_wrt row_before (edges_from Eout k)"
proof (induction "length Eout - k" arbitrary: k)
  case 0
  then show ?case by (simp add: edges_from_ge)
next
  case (Suc n)
  then have k: "k < length Eout" by arith
  from Suc(2) have n: "n = length Eout - Suc k" by arith
  have row: "sorted_wrt row_before (map (Pair k) (set_begin_to_end (Eout ! k)))"
    using sorted_set_begin_to_end[of "Eout ! k"]
    by (simp add: sorted_wrt_map row_before_def)
  have cross: "\<forall>x\<in>set (map (Pair k) (set_begin_to_end (Eout ! k))).
      \<forall>y\<in>set (edges_from Eout (Suc k)). row_before x y"
    by (auto simp: set_edges_from row_before_def)
  show ?case
    unfolding edges_from_step[OF k] sorted_wrt_append
    using row cross Suc(1)[OF n] by simp
qed

lemma sorted_wrt_row_before_distinct: "sorted_wrt row_before xs \<Longrightarrow> distinct xs"
  by (induction xs) (auto simp: row_before_def)

lemma sorted_edge_entries: "sorted_wrt row_before (edge_entries Eout)"
  by (simp add: edge_entries_def sorted_edges_from)

lemma GenerateKlemmGraph_Inr:
  assumes "GenerateKlemmGraph build cast junk_e junk_w parsed
      = Inr (edge_array, member_tuple, weight_array)"
  shows "\<exists>a Eout member_list Wout.
      parsed = Some a \<and> build a ([], [], []) = Inr (Eout, member_list, Wout)
      \<and> edge_array = ConvertEdgeDequeToNumpyArray junk_e Eout
      \<and> member_tuple = ConvertMemberDequeToTuple member_list
      \<and> ConvertWeightMapToNumpyArray cast junk_w Wout Eout = Inr weight_array"
  using assms unfolding GenerateKlemmGraph_def Let_def
  by (auto split: option.splits sum.splits prod.splits)

lemma ConvertMemberDequeToTuple_eq: "ConvertMemberDequeToTuple member_list = member_list"
  unfolding ConvertMemberDequeToTuple_def
  by (simp add: map_nth cong: map_cong)

section \<open>Every cell is written, and only cells of the buffer\<close>

text \<open>
  The fill loops end with \<^verbatim>\<open>edge_index\<close> at the length of the buffer, so every
  store was inside it; and since every cell is overwritten, the result of the entry
  point does not depend on the uninitialised memory the arrays start from.
\<close>

lemma edge_buffer_filled:
  "snd (fill_edges Eout 0 (data (PyArray_SimpleNew [count_edges Eout 0, 2] junk), 0))
     = length (data (PyArray_SimpleNew [count_edges Eout 0, 2] junk))"
proof -
  let ?n = "length (edges_from Eout 0)"
  let ?cells = "data (PyArray_SimpleNew [count_edges Eout 0, 2] junk)"
  have cnt: "count_edges Eout 0 = ?n"
    by (simp add: count_edges_eq length_edges_from)
  have len: "length ?cells = 2 * ?n"
    by (simp add: PyArray_SimpleNew_def cnt)
  then have room: "0 + 2 * ?n \<le> length ?cells"
    by simp
  show ?thesis
    unfolding fill_edges_eq[OF room] len by simp
qed

lemma weight_buffer_filled:
  assumes "fill_weights cast Wout Eout 0
      (data (PyArray_SimpleNew [count_edges Eout 0] junk), 0) = Inr (cells, edge_index)"
  shows "edge_index = length (data (PyArray_SimpleNew [count_edges Eout 0] junk))"
proof -
  let ?n = "length (edges_from Eout 0)"
  let ?cells = "data (PyArray_SimpleNew [count_edges Eout 0] junk)"
  have cnt: "count_edges Eout 0 = ?n"
    by (simp add: count_edges_eq length_edges_from)
  have len: "length ?cells = ?n"
    by (simp add: PyArray_SimpleNew_def cnt)
  then have room: "0 + ?n \<le> length ?cells"
    by simp
  have "\<forall>e\<in>set (edges_from Eout 0). stored_weight Wout e \<noteq> None"
  proof (rule ccontr)
    assume "\<not> (\<forall>e\<in>set (edges_from Eout 0). stored_weight Wout e \<noteq> None)"
    then have "\<exists>e\<in>set (edges_from Eout 0). stored_weight Wout e = None" by simp
    from fill_weights_fail[OF this, of cast "(?cells, 0)"] assms show False by simp
  qed
  from fill_weights_ok[OF this room, of cast] assms show ?thesis
    unfolding len by simp
qed

lemma fill_weight_row_error_any_buffer:
  "fill_weight_row cast Wout tail hs st = Inl e \<Longrightarrow>
   fill_weight_row cast Wout tail hs st' = Inl e"
proof (induction hs arbitrary: st st')
  case Nil
  then show ?case by simp
next
  case (Cons h hs)
  obtain c i where st: "st = (c, i)" by (cases st)
  obtain c' i' where st': "st' = (c', i')" by (cases st')
  show ?case
  proof (cases "tail < length Wout")
    case False
    with Cons.prems show ?thesis unfolding st st' by simp
  next
    case True
    show ?thesis
    proof (cases "(Wout ! tail) h")
      case None
      with True Cons.prems show ?thesis unfolding st st' by simp
    next
      case (Some w)
      with True Cons.prems
      have "fill_weight_row cast Wout tail hs (c[i := cast w], i + 1) = Inl e"
        unfolding st by simp
      from Cons.IH[OF this, of "(c'[i' := cast w], i' + 1)"] True Some
      show ?thesis unfolding st' by simp
    qed
  qed
qed

lemma fill_weight_row_ok_any_buffer:
  assumes "fill_weight_row cast Wout tail hs st = Inr r"
  shows "\<exists>r'. fill_weight_row cast Wout tail hs st' = Inr r'"
proof (cases "fill_weight_row cast Wout tail hs st'")
  case (Inl e)
  from fill_weight_row_error_any_buffer[OF this, of st] assms show ?thesis by simp
next
  case (Inr r')
  then show ?thesis by blast
qed

lemma fill_weights_error_any_buffer:
  "fill_weights cast Wout Eout k st = Inl e \<Longrightarrow>
   fill_weights cast Wout Eout k st' = Inl e"
proof (induction "length Eout - k" arbitrary: k st st')
  case 0
  then show ?case by (subst (asm) fill_weights.simps) simp
next
  case (Suc n)
  then have k: "k < length Eout" by arith
  from Suc(2) have n: "n = length Eout - (k + 1)" by arith
  let ?hs = "set_begin_to_end (Eout ! k)"
  show ?case
  proof (cases "fill_weight_row cast Wout k ?hs st")
    case (Inl e')
    with Suc.prems k have "e' = e" by (subst (asm) fill_weights.simps) simp
    with Inl have "fill_weight_row cast Wout k ?hs st' = Inl e"
      using fill_weight_row_error_any_buffer by blast
    then show ?thesis using k by (subst fill_weights.simps) simp
  next
    case (Inr r)
    from fill_weight_row_ok_any_buffer[OF this, of st']
    obtain r' where r': "fill_weight_row cast Wout k ?hs st' = Inr r'" by blast
    from Suc.prems Inr k have "fill_weights cast Wout Eout (k + 1) r = Inl e"
      by (subst (asm) fill_weights.simps) simp
    from Suc(1)[OF n this, of r'] r' k show ?thesis
      by (subst fill_weights.simps) simp
  qed
qed

lemma ConvertWeightMapToNumpyArray_any_memory:
  "ConvertWeightMapToNumpyArray cast junk Wout Eout
     = ConvertWeightMapToNumpyArray cast junk' Wout Eout"
proof (cases "\<forall>e\<in>set (edge_entries Eout). stored_weight Wout e \<noteq> None")
  case True
  then show ?thesis by (simp add: ConvertWeightMapToNumpyArray_ok)
next
  case False
  then have "\<exists>e\<in>set (edge_entries Eout). stored_weight Wout e = None" by simp
  from ConvertWeightMapToNumpyArray_fail[OF this, of cast junk]
  obtain e where e: "ConvertWeightMapToNumpyArray cast junk Wout Eout = Inl e" by blast
  then have "fill_weights cast Wout Eout 0
      (data (PyArray_SimpleNew [count_edges Eout 0] junk), 0) = Inl e"
    unfolding ConvertWeightMapToNumpyArray_def Let_def
    by (auto split: sum.splits)
  from fill_weights_error_any_buffer[OF this]
  have "fill_weights cast Wout Eout 0
      (data (PyArray_SimpleNew [count_edges Eout 0] junk'), 0) = Inl e" .
  then have "ConvertWeightMapToNumpyArray cast junk' Wout Eout = Inl e"
    unfolding ConvertWeightMapToNumpyArray_def Let_def by simp
  with e show ?thesis by simp
qed

lemma GenerateKlemmGraph_any_memory:
  "GenerateKlemmGraph build cast junk_e junk_w parsed
     = GenerateKlemmGraph build cast junk_e' junk_w' parsed"
  unfolding GenerateKlemmGraph_def Let_def
    ConvertWeightMapToNumpyArray_any_memory[of cast junk_w _ _ junk_w']
    ConvertEdgeDequeToNumpyArray_eq
  by simp

section \<open>The statements a call executes\<close>

text \<open>
  Every parsed call constructs the three containers and then calls the core. The
  tuple is made exactly when the call returns a result. The weight converter
  throws nothing but the exception of \<^verbatim>\<open>std::map::at\<close> (or reads outside
  \<open>Wout\<close>), so an \<open>InvalidParameter\<close> that leaves \<^verbatim>\<open>GenerateKlemmGraph\<close> was
  thrown by the core, whatever the core is, and then the call of the core is the
  last statement executed.
\<close>

lemma steps_start_with_the_containers:
  "GenerateKlemmGraph_steps build cast junk_e junk_w (Some a) =
     [Construct_Eout, Construct_member_list, Construct_Wout, Call_build_network_klemm]
     @ drop 4 (GenerateKlemmGraph_steps build cast junk_e junk_w (Some a))"
  by (simp add: GenerateKlemmGraph_steps_def)

lemma steps_reach_the_tuple_iff:
  "Make_return_tuple \<in> set (GenerateKlemmGraph_steps build cast junk_e junk_w parsed) \<longleftrightarrow>
   (\<exists>t. GenerateKlemmGraph build cast junk_e junk_w parsed = Inr t)"
  unfolding GenerateKlemmGraph_steps_def GenerateKlemmGraph_def Let_def
  by (auto split: option.splits sum.splits prod.splits)

lemma fill_weight_row_error_kind:
  "fill_weight_row cast Wout tail hs st = Inl e \<Longrightarrow> e = OutOfRange \<or> e = DequeOutOfBounds"
proof (induction hs arbitrary: st)
  case Nil
  then show ?case by simp
next
  case (Cons h hs)
  obtain c i where st: "st = (c, i)" by (cases st)
  from Cons.prems show ?case
    unfolding st using Cons.IH
    by (auto split: if_splits option.splits)
qed

lemma fill_weights_error_kind:
  "fill_weights cast Wout Eout k st = Inl e \<Longrightarrow> e = OutOfRange \<or> e = DequeOutOfBounds"
proof (induction "length Eout - k" arbitrary: k st)
  case 0
  then show ?case by (subst (asm) fill_weights.simps) simp
next
  case (Suc n)
  then have k: "k < length Eout" by arith
  from Suc(2) have n: "n = length Eout - (k + 1)" by arith
  show ?case
  proof (cases "fill_weight_row cast Wout k (set_begin_to_end (Eout ! k)) st")
    case (Inl e')
    with Suc.prems k have "e' = e" by (subst (asm) fill_weights.simps) simp
    with Inl show ?thesis using fill_weight_row_error_kind by blast
  next
    case (Inr r)
    with Suc.prems k have "fill_weights cast Wout Eout (k + 1) r = Inl e"
      by (subst (asm) fill_weights.simps) simp
    from Suc(1)[OF n this] show ?thesis .
  qed
qed

lemma ConvertWeightMapToNumpyArray_error_kind:
  assumes "ConvertWeightMapToNumpyArray cast junk Wout Eout = Inl e"
  shows "e = OutOfRange \<or> e = DequeOutOfBounds"
proof -
  from assms have "fill_weights cast Wout Eout 0
      (data (PyArray_SimpleNew [count_edges Eout 0] junk), 0) = Inl e"
    unfolding ConvertWeightMapToNumpyArray_def Let_def
    by (auto split: sum.splits)
  then show ?thesis by (rule fill_weights_error_kind)
qed

lemma InvalidParameter_comes_from_the_core:
  assumes "GenerateKlemmGraph build cast junk_e junk_w parsed = Inl InvalidParameter"
  shows "\<exists>a. parsed = Some a \<and> build a ([], [], []) = Inl InvalidParameter
     \<and> GenerateKlemmGraph_steps build cast junk_e junk_w parsed =
        [Construct_Eout, Construct_member_list, Construct_Wout, Call_build_network_klemm]"
proof (cases parsed)
  case None
  with assms show ?thesis by (simp add: GenerateKlemmGraph_def)
next
  case (Some a)
  show ?thesis
  proof (cases "build a ([], [], [])")
    case (Inl e)
    with assms Some have "e = InvalidParameter" by (simp add: GenerateKlemmGraph_def)
    with Inl Some show ?thesis by (simp add: GenerateKlemmGraph_steps_def)
  next
    case (Inr r)
    obtain Eout member_list Wout where r: "r = (Eout, member_list, Wout)" by (cases r)
    from assms Some Inr r
    have "ConvertWeightMapToNumpyArray cast junk_w Wout Eout = Inl InvalidParameter"
      by (simp add: GenerateKlemmGraph_def Let_def split: sum.splits)
    from ConvertWeightMapToNumpyArray_error_kind[OF this] show ?thesis by simp
  qed
qed

section \<open>The two arrays have one entry per edge\<close>

text \<open>
  Claim C10. For every adjacency structure \<open>Eout\<close>, whatever \<open>Wout\<close> holds, the
  number of rows of the edge array made by \<^verbatim>\<open>ConvertEdgeDequeToNumpyArray\<close> equals
  the length of the weight array made by \<^verbatim>\<open>ConvertWeightMapToNumpyArray\<close>: both
  are the number of \<open>(tail, head)\<close> entries of \<open>Eout\<close>, the sum of the sizes of its
  head sets, which is the value \<^verbatim>\<open>num_edges\<close> that both functions compute before
  they allocate. The weight converter may throw instead of returning (claim C9);
  every array it does return has that length.
\<close>

theorem index_aligned:
  "count_edges Eout 0 = length (edge_entries Eout)
   \<and> length (edge_entries Eout) = sum_list (map fcard Eout)
   \<and> dims (ConvertEdgeDequeToNumpyArray junk Eout) = [length (edge_entries Eout), 2]
   \<and> length (rows (ConvertEdgeDequeToNumpyArray junk Eout)) = length (edge_entries Eout)
   \<and> (\<forall>weight_array. ConvertWeightMapToNumpyArray cast junk' Wout Eout = Inr weight_array
        \<longrightarrow> dims weight_array = [length (edge_entries Eout)]
          \<and> length (data weight_array) = length (edge_entries Eout))"
proof -
  have "ConvertWeightMapToNumpyArray cast junk' Wout Eout = Inr a \<Longrightarrow>
      dims a = [length (edge_entries Eout)] \<and> length (data a) = length (edge_entries Eout)" for a
  proof -
    assume a: "ConvertWeightMapToNumpyArray cast junk' Wout Eout = Inr a"
    then have "\<forall>e\<in>set (edge_entries Eout). stored_weight Wout e \<noteq> None"
      using ConvertWeightMapToNumpyArray_Inr_iff[of cast junk' Wout Eout] by blast
    from ConvertWeightMapToNumpyArray_ok[OF this, of cast junk'] a
    show ?thesis by (auto simp: length_cast_weights)
  qed
  moreover have "count_edges Eout 0 = length (edge_entries Eout)"
    by (simp add: count_edges_eq length_edge_entries)
  moreover have "length (edge_entries Eout) = sum_list (map fcard Eout)"
    by (rule length_edge_entries)
  moreover have "dims (ConvertEdgeDequeToNumpyArray junk Eout) = [length (edge_entries Eout), 2]"
    by (simp add: ConvertEdgeDequeToNumpyArray_eq)
  moreover have "length (rows (ConvertEdgeDequeToNumpyArray junk Eout))
      = length (edge_entries Eout)"
    by (simp add: rows_ConvertEdge)
  ultimately show ?thesis by blast
qed

text \<open>
  Three nodes, edges \<open>(0,1)\<close>, \<open>(0,2)\<close>, \<open>(1,2)\<close> with weights 5/2, 7 and 9/4: the
  weight converter returns three cells, and the edge array has three rows.
\<close>

theorem index_aligned_witness:
  "ConvertWeightMapToNumpyArray (\<lambda>w::real. w) (\<lambda>_. 0)
      [[1 \<mapsto> 5 / 2, 2 \<mapsto> 7], [2 \<mapsto> 9 / 4], Map.empty] [{|1, 2|}, {|2|}, {||}]
    = Inr \<lparr>dims = [3], data = [5 / 2, 7, 9 / 4 :: real]\<rparr>
   \<and> length (rows (ConvertEdgeDequeToNumpyArray (\<lambda>_. 0) [{|1, 2|}, {|2|}, {||}]))
     = length [5 / 2, 7, 9 / 4 :: real]"
proof -
  let ?E = "[{|1, 2|}, {|2|}, {||}] :: int fset list"
  let ?W = "[[1 \<mapsto> 5 / 2, 2 \<mapsto> 7], [2 \<mapsto> 9 / 4], Map.empty] :: (int \<rightharpoonup> real) list"
  let ?a = "\<lparr>dims = [3], data = [5 / 2, 7, 9 / 4 :: real]\<rparr>"
  have w: "ConvertWeightMapToNumpyArray (\<lambda>w::real. w) (\<lambda>_. 0) ?W ?E = Inr ?a"
    by code_simp
  note t = index_aligned[of ?E "\<lambda>_. 0" "\<lambda>w::real. w" "\<lambda>_. 0" ?W]
  from t w have "length (data ?a) = length (edge_entries ?E)" by blast
  moreover from t have
    "length (rows (ConvertEdgeDequeToNumpyArray (\<lambda>_. 0) ?E)) = length (edge_entries ?E)"
    by blast
  ultimately show ?thesis using w by simp
qed

section \<open>When the weight converter returns\<close>

text \<open>
  Claim C9, as amended. \<^verbatim>\<open>ConvertWeightMapToNumpyArray\<close> is not total. It returns
  an array exactly when \<open>Wout\<close> holds an entry for every edge of \<open>Eout\<close>: for
  every node index \<open>tail\<close> and every \<open>head\<close> in \<open>Eout[tail]\<close>, the deque \<open>Wout\<close>
  has an element at index \<open>tail\<close> and the map \<open>Wout[tail]\<close> has the key \<open>head\<close>.
  Under this condition neither the throwing branch of \<^verbatim>\<open>std::map::at\<close> nor a
  read outside \<open>Wout\<close> is reached. \<open>Wout\<close> need not have \<open>Eout.size()\<close>
  elements: no element of \<open>Wout\<close> is read at a \<open>tail\<close> whose head set is empty.
  That \<open>Wout\<close> has at least \<open>Eout.size()\<close> elements and every \<open>Wout[tail]\<close> has
  the keys of \<open>Eout[tail]\<close> is sufficient for the call to return.
\<close>

theorem returns_iff_every_edge_weighted:
  "((\<exists>weight_array. ConvertWeightMapToNumpyArray cast junk Wout Eout = Inr weight_array)
      \<longleftrightarrow> (\<forall>tail<length Eout. \<forall>head\<in>fset (Eout ! tail).
             tail < length Wout \<and> head \<in> dom (Wout ! tail)))
   \<and> ((\<forall>tail<length Eout. \<forall>head\<in>fset (Eout ! tail).
          tail < length Wout \<and> head \<in> dom (Wout ! tail))
      \<longrightarrow> ConvertWeightMapToNumpyArray cast junk Wout Eout \<noteq> Inl OutOfRange
        \<and> ConvertWeightMapToNumpyArray cast junk Wout Eout \<noteq> Inl DequeOutOfBounds)
   \<and> (length Eout \<le> length Wout
        \<and> (\<forall>tail<length Eout. \<forall>head\<in>fset (Eout ! tail). head \<in> dom (Wout ! tail))
      \<longrightarrow> (\<exists>weight_array.
            ConvertWeightMapToNumpyArray cast junk Wout Eout = Inr weight_array))"
proof -
  let ?present = "\<forall>tail<length Eout. \<forall>head\<in>fset (Eout ! tail).
      tail < length Wout \<and> head \<in> dom (Wout ! tail)"
  have returns: "(\<exists>weight_array.
      ConvertWeightMapToNumpyArray cast junk Wout Eout = Inr weight_array) \<longleftrightarrow> ?present"
    unfolding ConvertWeightMapToNumpyArray_Inr_iff weights_present_iff ..
  have no_error: "ConvertWeightMapToNumpyArray cast junk Wout Eout \<noteq> Inl OutOfRange
      \<and> ConvertWeightMapToNumpyArray cast junk Wout Eout \<noteq> Inl DequeOutOfBounds"
    if ?present
  proof -
    from that returns obtain weight_array where
      "ConvertWeightMapToNumpyArray cast junk Wout Eout = Inr weight_array" by blast
    then show ?thesis by simp
  qed
  have enough: "\<exists>weight_array.
      ConvertWeightMapToNumpyArray cast junk Wout Eout = Inr weight_array"
    if "length Eout \<le> length Wout"
      and "\<forall>tail<length Eout. \<forall>head\<in>fset (Eout ! tail). head \<in> dom (Wout ! tail)"
  proof -
    from that have ?present by auto
    then show ?thesis unfolding returns .
  qed
  from returns no_error enough show ?thesis by blast
qed

text \<open>
  Three nodes, the edges \<open>(0,1)\<close>, \<open>(0,2)\<close>, \<open>(1,2)\<close> with the weights 5/2, 7
  and 9/4: every edge has its entry and the converter returns.
\<close>

theorem returns_iff_every_edge_weighted_witness:
  "(\<exists>weight_array.
      ConvertWeightMapToNumpyArray (\<lambda>w::real. w) (\<lambda>_. 0)
        [[1 \<mapsto> 5 / 2, 2 \<mapsto> 7], [2 \<mapsto> 9 / 4], Map.empty] [{|1, 2|}, {|2|}, {||}]
      = Inr weight_array)
   \<and> ConvertWeightMapToNumpyArray (\<lambda>w::real. w) (\<lambda>_. 0)
        [[1 \<mapsto> 5 / 2, 2 \<mapsto> 7], [2 \<mapsto> 9 / 4], Map.empty] [{|1, 2|}, {|2|}, {||}]
      \<noteq> Inl OutOfRange"
proof -
  let ?E = "[{|1, 2|}, {|2|}, {||}] :: int fset list"
  let ?W = "[[1 \<mapsto> 5 / 2, 2 \<mapsto> 7], [2 \<mapsto> 9 / 4], Map.empty] :: (int \<rightharpoonup> real) list"
  have present: "\<forall>tail<length ?E. \<forall>head\<in>fset (?E ! tail).
      tail < length ?W \<and> head \<in> dom (?W ! tail)"
    by (simp add: numeral_3_eq_3 less_Suc_eq)
  from returns_iff_every_edge_weighted[of "\<lambda>w::real. w" "\<lambda>_. 0" ?W ?E] present
  show ?thesis by blast
qed

text \<open>
  The claim as stated makes the size of \<open>Wout\<close> a part of the condition without
  which the converter is not total. It is not: with two nodes, the edge \<open>(0,1)\<close>
  and a weight structure of one map, \<open>Wout = [{1: 2.5}]\<close>, the deque \<open>Wout\<close> has
  fewer elements than \<open>Eout\<close> and the converter returns the array \<open>[2.5]\<close>. The
  head set of node 1 is empty, so \<open>Wout[1]\<close> is never read.
\<close>

theorem returns_with_fewer_maps_than_nodes:
  "ConvertWeightMapToNumpyArray (\<lambda>w::real. w) (\<lambda>_. 0) [[1 \<mapsto> 5 / 2]] [{|1|}, {||}]
     = Inr \<lparr>dims = [1], data = [5 / 2]\<rparr>
   \<and> \<not> length [{|1|}, {||} :: int fset] \<le> length [[1 \<mapsto> 5 / 2] :: int \<rightharpoonup> real]"
  by code_simp

section \<open>The rows of the edge array\<close>

text \<open>
  \<^verbatim>\<open>ConvertEdgeDequeToNumpyArray\<close> copies the adjacency structure without
  filtering: the edge array has one row \<open>(tail, head)\<close> for every \<open>head\<close> in
  \<open>Eout[tail]\<close>, in ascending order of \<open>tail\<close> and then of \<open>head\<close>
  (\<open>rows_ConvertEdge\<close> above). What the rows look like is therefore decided by
  what the core stored. If every head stored in \<open>Eout[tail]\<close> is an \<^verbatim>\<open>int\<close>
  greater than \<open>tail\<close>, then every row has \<open>tail < head\<close> (so no row is a
  self-loop), no row occurs twice, no unordered pair occurs twice, and the rows
  ascend.
\<close>

lemma edge_rows_simple:
  assumes upper: "\<forall>tail<length Eout. \<forall>head\<in>fset (Eout ! tail).
      int tail < head \<and> c_int_range head"
  shows "rows (ConvertEdgeDequeToNumpyArray junk Eout) = map uint64_row (edge_entries Eout)
    \<and> (\<forall>r\<in>set (rows (ConvertEdgeDequeToNumpyArray junk Eout)). fst r < snd r)
    \<and> distinct (rows (ConvertEdgeDequeToNumpyArray junk Eout))
    \<and> (\<forall>r\<in>set (rows (ConvertEdgeDequeToNumpyArray junk Eout)).
          (snd r, fst r) \<notin> set (rows (ConvertEdgeDequeToNumpyArray junk Eout)))
    \<and> sorted_wrt row_before (rows (ConvertEdgeDequeToNumpyArray junk Eout))"
proof -
  let ?R = "rows (ConvertEdgeDequeToNumpyArray junk Eout)"
  have R: "?R = map uint64_row (edge_entries Eout)"
    by (rule rows_ConvertEdge)
  have entry: "int (fst e) < snd e \<and> snd e < 2 ^ 31" if "e \<in> set (edge_entries Eout)" for e
    using that upper unfolding set_edge_entries c_int_range_def by auto
  have less: "fst (uint64_row e) < snd (uint64_row e)" if "e \<in> set (edge_entries Eout)" for e
  proof -
    from entry[OF that] have "int (fst e) < snd e" "snd e < 2 ^ 64" by auto
    then show ?thesis unfolding uint64_row_def fst_conv snd_conv by (rule uint64_less)
  qed
  have mono: "row_before (uint64_row e) (uint64_row e')"
    if "e \<in> set (edge_entries Eout)" "e' \<in> set (edge_entries Eout)" "row_before e e'" for e e'
  proof -
    from entry[OF that(1)] have e: "0 \<le> snd e" "snd e < 2 ^ 64" "fst e < 2 ^ 64" by auto
    from entry[OF that(2)] have e': "0 \<le> snd e'" "snd e' < 2 ^ 64" "fst e' < 2 ^ 64" by auto
    from that(3) consider "fst e < fst e'" | "fst e = fst e'" "snd e < snd e'"
      unfolding row_before_def by auto
    then show ?thesis
    proof cases
      case 1
      then have "(of_nat (fst e) :: 64 word) < of_nat (fst e')"
        using e e' by (simp add: of_nat_word_less_iff take_bit_nat_eq_self)
      then show ?thesis by (simp add: row_before_def uint64_row_def)
    next
      case 2
      then have "(word_of_int (snd e) :: 64 word) < word_of_int (snd e')"
        using e e' by (simp add: word_of_int_less_iff take_bit_int_eq_self)
      with 2 show ?thesis by (simp add: row_before_def uint64_row_def)
    qed
  qed
  have sorted: "sorted_wrt row_before ?R"
    unfolding R sorted_wrt_map
    by (rule sorted_wrt_mono_rel[OF _ sorted_edge_entries]) (rule mono)
  have lt: "\<forall>r\<in>set ?R. fst r < snd r"
    unfolding R using less by auto
  have "\<forall>r\<in>set ?R. (snd r, fst r) \<notin> set ?R"
  proof
    fix r assume r: "r \<in> set ?R"
    show "(snd r, fst r) \<notin> set ?R"
    proof
      assume "(snd r, fst r) \<in> set ?R"
      with lt have "snd r < fst r" by fastforce
      moreover from lt r have "fst r < snd r" by blast
      ultimately show False by simp
    qed
  qed
  with R lt sorted sorted_wrt_row_before_distinct[OF sorted] show ?thesis by blast
qed

text \<open>Three nodes with the edges \<open>(0,1)\<close>, \<open>(0,2)\<close> and \<open>(1,2)\<close>.\<close>

lemma edge_rows_simple_example:
  "rows (ConvertEdgeDequeToNumpyArray (\<lambda>_. 0) [{|1, 2|}, {|2|}, {||}])
     = [(0, 1), (0, 2), (1, 2)]
   \<and> distinct (rows (ConvertEdgeDequeToNumpyArray (\<lambda>_. 0) [{|1, 2|}, {|2|}, {||}]))
   \<and> sorted_wrt row_before (rows (ConvertEdgeDequeToNumpyArray (\<lambda>_. 0) [{|1, 2|}, {|2|}, {||}]))"
proof -
  let ?E = "[{|1, 2|}, {|2|}, {||}] :: int fset list"
  have upper: "\<forall>tail<length ?E. \<forall>head\<in>fset (?E ! tail). int tail < head \<and> c_int_range head"
    by (simp add: numeral_3_eq_3 less_Suc_eq c_int_range_def)
  have entries: "map uint64_row (edge_entries ?E) = [(0, 1), (0, 2), (1, 2)]"
    by code_simp
  show ?thesis
    using edge_rows_simple[OF upper, of "\<lambda>_. 0"] unfolding entries by blast
qed

section \<open>The weight array is parallel to the edge array\<close>

text \<open>
  Whenever \<^verbatim>\<open>ConvertWeightMapToNumpyArray\<close> returns, the weight array is parallel
  to the edge array that \<^verbatim>\<open>ConvertEdgeDequeToNumpyArray\<close> makes from the same
  \<open>Eout\<close>: it has one cell per row, and for every row index \<open>i\<close>, holding the
  edge \<open>(tail, head)\<close>, cell \<open>i\<close> is the \<^verbatim>\<open>npy_float32\<close> cast of the weight
  stored for the key \<open>head\<close> in the weight map of node \<open>tail\<close>. The converter
  does not look at the sign of the weight: the sign of a cell is the sign that the
  cast gives to what the core stored.
\<close>

lemma weight_array_parallel:
  assumes ret: "ConvertWeightMapToNumpyArray cast junk' Wout Eout = Inr weight_array"
    and i: "i < length (rows (ConvertEdgeDequeToNumpyArray junk Eout))"
  shows "dims weight_array = [length (rows (ConvertEdgeDequeToNumpyArray junk Eout))]
    \<and> length (data weight_array) = length (rows (ConvertEdgeDequeToNumpyArray junk Eout))
    \<and> (\<exists>tail head w.
          edge_entries Eout ! i = (tail, head)
          \<and> tail < length Eout \<and> head \<in> fset (Eout ! tail)
          \<and> rows (ConvertEdgeDequeToNumpyArray junk Eout) ! i = (of_nat tail, word_of_int head)
          \<and> tail < length Wout \<and> (Wout ! tail) head = Some w
          \<and> data weight_array ! i = cast w)"
proof -
  let ?es = "edge_entries Eout"
  have R: "rows (ConvertEdgeDequeToNumpyArray junk Eout) = map uint64_row ?es"
    by (rule rows_ConvertEdge)
  from ret have present: "\<forall>e\<in>set ?es. stored_weight Wout e \<noteq> None"
    using ConvertWeightMapToNumpyArray_Inr_iff[of cast junk' Wout Eout] by blast
  from ConvertWeightMapToNumpyArray_ok[OF present, of cast junk'] ret
  have wa: "weight_array = \<lparr>dims = [length ?es], data = cast_weights cast Wout ?es\<rparr>"
    by simp
  from i have i': "i < length ?es" by (simp add: R)
  obtain tail head where e: "?es ! i = (tail, head)" by (cases "?es ! i")
  from i' have mem: "?es ! i \<in> set ?es" by simp
  with e have th: "tail < length Eout" "head \<in> fset (Eout ! tail)"
    unfolding set_edge_entries by auto
  from present mem e obtain w where sw: "stored_weight Wout (tail, head) = Some w"
    by fastforce
  then have w: "tail < length Wout" "(Wout ! tail) head = Some w"
    by (auto simp: stored_weight_def split: if_splits)
  have row: "rows (ConvertEdgeDequeToNumpyArray junk Eout) ! i = (of_nat tail, word_of_int head)"
    using i' e by (simp add: R uint64_row_def)
  have cell: "data weight_array ! i = cast w"
    using i' e sw by (simp add: wa cast_weights_def)
  have "dims weight_array = [length (rows (ConvertEdgeDequeToNumpyArray junk Eout))]"
    by (simp add: wa R)
  moreover have "length (data weight_array) = length (rows (ConvertEdgeDequeToNumpyArray junk Eout))"
    by (simp add: wa R length_cast_weights)
  ultimately show ?thesis using e th row w cell by blast
qed

text \<open>
  Three nodes, the edges \<open>(0,1)\<close>, \<open>(0,2)\<close>, \<open>(1,2)\<close> with the weights 5/2, 7
  and 9/4, and row 1.
\<close>

lemma weight_array_parallel_example:
  "ConvertWeightMapToNumpyArray (\<lambda>w::real. w) (\<lambda>_. 0)
      [[1 \<mapsto> 5 / 2, 2 \<mapsto> 7], [2 \<mapsto> 9 / 4], Map.empty] [{|1, 2|}, {|2|}, {||}]
     = Inr \<lparr>dims = [3], data = [5 / 2, 7, 9 / 4 :: real]\<rparr>
   \<and> (1::nat) < length (rows (ConvertEdgeDequeToNumpyArray (\<lambda>_. 0) [{|1, 2|}, {|2|}, {||}]))
   \<and> rows (ConvertEdgeDequeToNumpyArray (\<lambda>_. 0) [{|1, 2|}, {|2|}, {||}]) ! 1 = (0, 2)
   \<and> (\<exists>tail head w. edge_entries [{|1, 2|}, {|2|}, {||}] ! 1 = (tail, head)
         \<and> ([[1 \<mapsto> 5 / 2, 2 \<mapsto> 7], [2 \<mapsto> 9 / 4], Map.empty] ! tail) head = Some w
         \<and> data \<lparr>dims = [3], data = [5 / 2, 7, 9 / 4 :: real]\<rparr> ! 1 = w)"
proof -
  let ?E = "[{|1, 2|}, {|2|}, {||}] :: int fset list"
  let ?W = "[[1 \<mapsto> 5 / 2, 2 \<mapsto> 7], [2 \<mapsto> 9 / 4], Map.empty] :: (int \<rightharpoonup> real) list"
  let ?a = "\<lparr>dims = [3], data = [5 / 2, 7, 9 / 4 :: real]\<rparr>"
  have ret: "ConvertWeightMapToNumpyArray (\<lambda>w::real. w) (\<lambda>_. 0) ?W ?E = Inr ?a"
    by code_simp
  have rs: "rows (ConvertEdgeDequeToNumpyArray (\<lambda>_. 0) ?E) = [(0, 1), (0, 2), (1, 2)]"
    by code_simp
  have i: "(1::nat) < length (rows (ConvertEdgeDequeToNumpyArray (\<lambda>_. 0) ?E))"
    unfolding rs by simp
  have "\<exists>tail head w. edge_entries ?E ! 1 = (tail, head)
         \<and> (?W ! tail) head = Some w \<and> data ?a ! 1 = w"
    using weight_array_parallel[OF ret i] by blast
  with ret i rs show ?thesis by simp
qed

section \<open>Failures of the core leave the entry point without a result\<close>

text \<open>
  Claim C1, as amended. Stated for the core as the specification describes it
  (\<open>build_network_klemm\<close> above): for every call of \<^verbatim>\<open>GenerateKlemmGraph\<close> whose
  arguments parse and have \<open>num_nodes < clique_size\<close>, or \<open>clique_size < 2\<close>, or
  \<open>clique_linkage\<close> outside \<open>[0,1]\<close>, the call fails with \<open>InvalidParameter\<close> and
  returns no graph, whatever the growth process and the weight assigner are. The
  failure does not come before the graph state exists: the statements executed are
  the construction of \<open>Eout\<close>, \<open>member_list\<close> and \<open>Wout\<close> and then the call of
  \<^verbatim>\<open>build_network_klemm\<close>, where the exception is thrown; no converter runs and no
  tuple is made. The second part holds for the code with any core \<open>build\<close>: a call
  that fails with \<open>InvalidParameter\<close> has parsed its arguments, has constructed the
  three containers, and fails in the core.
\<close>

theorem invalid_parameters_fail_in_the_core:
  "(num_nodes a < clique_size a \<or> clique_size a < 2
      \<or> clique_linkage a < 0 \<or> 1 < clique_linkage a \<longrightarrow>
      GenerateKlemmGraph (build_network_klemm grow assign_weights) cast junk_e junk_w (Some a)
        = Inl InvalidParameter
      \<and> GenerateKlemmGraph_steps (build_network_klemm grow assign_weights) cast junk_e junk_w
          (Some a)
        = [Construct_Eout, Construct_member_list, Construct_Wout, Call_build_network_klemm])
   \<and> (GenerateKlemmGraph build cast junk_e junk_w parsed = Inl InvalidParameter \<longrightarrow>
      (\<exists>a'. parsed = Some a' \<and> build a' ([], [], []) = Inl InvalidParameter
         \<and> GenerateKlemmGraph_steps build cast junk_e junk_w parsed
           = [Construct_Eout, Construct_member_list, Construct_Wout,
              Call_build_network_klemm]))"
proof (intro conjI impI)
  assume invalid: "num_nodes a < clique_size a \<or> clique_size a < 2
      \<or> clique_linkage a < 0 \<or> 1 < clique_linkage a"
  then show "GenerateKlemmGraph (build_network_klemm grow assign_weights) cast junk_e junk_w
      (Some a) = Inl InvalidParameter"
    by (simp add: GenerateKlemmGraph_def build_network_klemm_def invalid_grower_parameters_def)
  from invalid show "GenerateKlemmGraph_steps (build_network_klemm grow assign_weights) cast
      junk_e junk_w (Some a)
    = [Construct_Eout, Construct_member_list, Construct_Wout, Call_build_network_klemm]"
    by (simp add: GenerateKlemmGraph_steps_def build_network_klemm_def
        invalid_grower_parameters_def)
next
  assume "GenerateKlemmGraph build cast junk_e junk_w parsed = Inl InvalidParameter"
  then show "\<exists>a'. parsed = Some a' \<and> build a' ([], [], []) = Inl InvalidParameter
         \<and> GenerateKlemmGraph_steps build cast junk_e junk_w parsed
           = [Construct_Eout, Construct_member_list, Construct_Wout,
              Call_build_network_klemm]"
    by (rule InvalidParameter_comes_from_the_core)
qed

text \<open>The call with \<open>num_nodes = 2\<close> and \<open>clique_size = 3\<close>.\<close>

theorem invalid_parameters_fail_in_the_core_witness:
  "GenerateKlemmGraph
     (build_network_klemm (\<lambda>n k l s. ([], []))
        (\<lambda>E M m b s. [] :: (int \<rightharpoonup> real) list))
     (\<lambda>w::real. w) (\<lambda>_. 0) (\<lambda>_. 0::real)
     (Some \<lparr>num_nodes = 2, clique_size = 3, clique_linkage = 1 / 2, muw = 2, beta = 3 / 10,
            seed = 42\<rparr>)
   = Inl InvalidParameter
   \<and> GenerateKlemmGraph_steps
     (build_network_klemm (\<lambda>n k l s. ([], []))
        (\<lambda>E M m b s. [] :: (int \<rightharpoonup> real) list))
     (\<lambda>w::real. w) (\<lambda>_. 0) (\<lambda>_. 0::real)
     (Some \<lparr>num_nodes = 2, clique_size = 3, clique_linkage = 1 / 2, muw = 2, beta = 3 / 10,
            seed = 42\<rparr>)
   = [Construct_Eout, Construct_member_list, Construct_Wout, Call_build_network_klemm]
   \<and> build_network_klemm (\<lambda>n k l s. ([], []))
        (\<lambda>E M m b s. [] :: (int \<rightharpoonup> real) list)
     \<lparr>num_nodes = 2, clique_size = 3, clique_linkage = 1 / 2, muw = 2, beta = 3 / 10,
            seed = 42\<rparr> ([], [], [])
   = Inl InvalidParameter"
proof -
  let ?grow = "\<lambda>(n::int) (k::int) (l::real) (s::int). ([] :: int fset list, [] :: int list list)"
  let ?assign = "\<lambda>(E::int fset list) (M::int list list) (m::real) (b::real) (s::int).
      [] :: (int \<rightharpoonup> real) list"
  let ?a = "\<lparr>num_nodes = 2, clique_size = 3, clique_linkage = 1 / 2, muw = 2, beta = 3 / 10,
            seed = 42\<rparr>"
  let ?build = "build_network_klemm ?grow ?assign"
  note t = invalid_parameters_fail_in_the_core[of ?a ?grow ?assign "\<lambda>w::real. w" "\<lambda>_. 0"
      "\<lambda>_. 0::real" ?build "Some ?a"]
  have h: "num_nodes ?a < clique_size ?a \<or> clique_size ?a < 2
      \<or> clique_linkage ?a < 0 \<or> 1 < clique_linkage ?a"
    by simp
  from t h have r: "GenerateKlemmGraph ?build (\<lambda>w::real. w) (\<lambda>_. 0) (\<lambda>_. 0::real) (Some ?a)
      = Inl InvalidParameter"
    and s: "GenerateKlemmGraph_steps ?build (\<lambda>w::real. w) (\<lambda>_. 0) (\<lambda>_. 0::real) (Some ?a)
      = [Construct_Eout, Construct_member_list, Construct_Wout, Call_build_network_klemm]"
    by blast+
  from t r have "?build ?a ([], [], []) = Inl InvalidParameter"
    by auto
  with r s show ?thesis by blast
qed

text \<open>
  The claim as stated puts the failure before any graph state is allocated. The
  call with \<open>clique_size = 0\<close> fails with \<open>InvalidParameter\<close>, and the first three
  statements it has executed construct the containers of the graph state: the
  check of the parameters is in the core, which receives them by reference.
\<close>

theorem containers_exist_at_the_failure:
  "GenerateKlemmGraph
     (build_network_klemm (\<lambda>n k l s. ([], []))
        (\<lambda>E M m b s. [] :: (int \<rightharpoonup> real) list))
     (\<lambda>w::real. w) (\<lambda>_. 0) (\<lambda>_. 0::real)
     (Some \<lparr>num_nodes = 10, clique_size = 0, clique_linkage = 1 / 2, muw = 2, beta = 3 / 10,
            seed = 42\<rparr>)
   = Inl InvalidParameter
   \<and> take 3 (GenerateKlemmGraph_steps
     (build_network_klemm (\<lambda>n k l s. ([], []))
        (\<lambda>E M m b s. [] :: (int \<rightharpoonup> real) list))
     (\<lambda>w::real. w) (\<lambda>_. 0) (\<lambda>_. 0::real)
     (Some \<lparr>num_nodes = 10, clique_size = 0, clique_linkage = 1 / 2, muw = 2, beta = 3 / 10,
            seed = 42\<rparr>))
   = [Construct_Eout, Construct_member_list, Construct_Wout]"
  by code_simp

text \<open>
  Claim C5. The first two parts are stated for the core as the specification
  describes it: the call fails with \<open>InvalidParameter\<close> when \<open>beta\<close> is outside
  \<open>[0,1]\<close> or \<open>muw \<le> 0\<close>, and with \<open>DegenerateInput\<close> when the parameters are
  valid and some node of the grown graph has no intra-community or no
  inter-community edge while a nonzero weight fraction is requested for that
  category. The third part holds for the code of \<^verbatim>\<open>GenerateKlemmGraph\<close> with any
  core \<open>build\<close>: a result is either an error or the full triple, and in a triple
  every edge of the graph has its weight: the core returned, every \<open>(tail, head)\<close>
  of \<open>Eout\<close> has an entry in \<open>Wout\<close>, the rows are the edges, the member tuple is
  the member list, and the weight array holds one cast weight per row.
\<close>

theorem weight_failures_surface_nothing:
  "(beta a < 0 \<or> 1 < beta a \<or> muw a \<le> 0 \<longrightarrow>
      GenerateKlemmGraph (build_network_klemm grow assign_weights) cast junk_e junk_w (Some a)
        = Inl InvalidParameter)
   \<and> (\<not> invalid_grower_parameters a \<and> \<not> invalid_weight_parameters a
       \<and> degenerate_input
            (fst (grow (num_nodes a) (clique_size a) (clique_linkage a) (seed a)))
            (snd (grow (num_nodes a) (clique_size a) (clique_linkage a) (seed a))) (beta a) \<longrightarrow>
      GenerateKlemmGraph (build_network_klemm grow assign_weights) cast junk_e junk_w (Some a)
        = Inl DegenerateInput)
   \<and> (\<forall>edge_array member_tuple weight_array.
        GenerateKlemmGraph build cast junk_e junk_w parsed
          = Inr (edge_array, member_tuple, weight_array) \<longrightarrow>
        (\<exists>a' Eout member_list Wout.
           parsed = Some a' \<and> build a' ([], [], []) = Inr (Eout, member_list, Wout)
           \<and> (\<forall>tail<length Eout. \<forall>head\<in>fset (Eout ! tail).
                 tail < length Wout \<and> head \<in> dom (Wout ! tail))
           \<and> rows edge_array = map uint64_row (edge_entries Eout)
           \<and> member_tuple = member_list
           \<and> dims weight_array = [length (rows edge_array)]
           \<and> data weight_array = cast_weights cast Wout (edge_entries Eout)))"
proof (intro conjI impI allI)
  assume "beta a < 0 \<or> 1 < beta a \<or> muw a \<le> 0"
  then show "GenerateKlemmGraph (build_network_klemm grow assign_weights) cast junk_e junk_w
      (Some a) = Inl InvalidParameter"
    by (simp add: GenerateKlemmGraph_def build_network_klemm_def invalid_weight_parameters_def)
next
  assume "\<not> invalid_grower_parameters a \<and> \<not> invalid_weight_parameters a
       \<and> degenerate_input
            (fst (grow (num_nodes a) (clique_size a) (clique_linkage a) (seed a)))
            (snd (grow (num_nodes a) (clique_size a) (clique_linkage a) (seed a))) (beta a)"
  then show "GenerateKlemmGraph (build_network_klemm grow assign_weights) cast junk_e junk_w
      (Some a) = Inl DegenerateInput"
    by (cases "grow (num_nodes a) (clique_size a) (clique_linkage a) (seed a)")
      (simp add: GenerateKlemmGraph_def build_network_klemm_def)
next
  fix edge_array member_tuple weight_array
  assume "GenerateKlemmGraph build cast junk_e junk_w parsed
      = Inr (edge_array, member_tuple, weight_array)"
  from GenerateKlemmGraph_Inr[OF this]
  obtain a' Eout member_list Wout where
    p: "parsed = Some a'" and b: "build a' ([], [], []) = Inr (Eout, member_list, Wout)"
    and e: "edge_array = ConvertEdgeDequeToNumpyArray junk_e Eout"
    and m: "member_tuple = ConvertMemberDequeToTuple member_list"
    and w: "ConvertWeightMapToNumpyArray cast junk_w Wout Eout = Inr weight_array"
    by blast
  from w have present: "\<forall>e\<in>set (edge_entries Eout). stored_weight Wout e \<noteq> None"
    using ConvertWeightMapToNumpyArray_Inr_iff[of cast junk_w Wout Eout] by blast
  from ConvertWeightMapToNumpyArray_ok[OF present, of cast junk_w] w
  have wa: "weight_array = \<lparr>dims = [length (edge_entries Eout)],
      data = cast_weights cast Wout (edge_entries Eout)\<rparr>"
    by simp
  have r: "rows edge_array = map uint64_row (edge_entries Eout)"
    unfolding e by (rule rows_ConvertEdge)
  have "\<forall>tail<length Eout. \<forall>head\<in>fset (Eout ! tail).
      tail < length Wout \<and> head \<in> dom (Wout ! tail)"
    using present unfolding weights_present_iff .
  moreover have "dims weight_array = [length (rows edge_array)]"
    by (simp add: wa r)
  moreover have "data weight_array = cast_weights cast Wout (edge_entries Eout)"
    by (simp add: wa)
  moreover have "member_tuple = member_list"
    unfolding m by (rule ConvertMemberDequeToTuple_eq)
  ultimately show "\<exists>a' Eout member_list Wout.
           parsed = Some a' \<and> build a' ([], [], []) = Inr (Eout, member_list, Wout)
           \<and> (\<forall>tail<length Eout. \<forall>head\<in>fset (Eout ! tail).
                 tail < length Wout \<and> head \<in> dom (Wout ! tail))
           \<and> rows edge_array = map uint64_row (edge_entries Eout)
           \<and> member_tuple = member_list
           \<and> dims weight_array = [length (rows edge_array)]
           \<and> data weight_array = cast_weights cast Wout (edge_entries Eout)"
    using p b r by blast
qed

text \<open>
  The triangle on three nodes in one community: \<open>beta = 2\<close> is rejected;
  \<open>beta = 3/10\<close> is degenerate, since no node has an inter-community edge;
  \<open>beta = 0\<close> returns three rows and three weights.
\<close>

theorem weight_failures_surface_nothing_witness:
  "GenerateKlemmGraph
     (build_network_klemm (\<lambda>n k l s. ([{|1, 2|}, {|2|}, {||}], [[0], [0], [0]]))
        (\<lambda>E M m b s. [[1 \<mapsto> 1, 2 \<mapsto> 1], [2 \<mapsto> 1], Map.empty :: int \<rightharpoonup> real]))
     (\<lambda>w::real. w) (\<lambda>_. 0) (\<lambda>_. 0::real)
     (Some \<lparr>num_nodes = 3, clique_size = 3, clique_linkage = 1 / 2, muw = 2, beta = 2,
            seed = 42\<rparr>)
   = Inl InvalidParameter
   \<and> GenerateKlemmGraph
     (build_network_klemm (\<lambda>n k l s. ([{|1, 2|}, {|2|}, {||}], [[0], [0], [0]]))
        (\<lambda>E M m b s. [[1 \<mapsto> 1, 2 \<mapsto> 1], [2 \<mapsto> 1], Map.empty :: int \<rightharpoonup> real]))
     (\<lambda>w::real. w) (\<lambda>_. 0) (\<lambda>_. 0::real)
     (Some \<lparr>num_nodes = 3, clique_size = 3, clique_linkage = 1 / 2, muw = 2, beta = 3 / 10,
            seed = 42\<rparr>)
   = Inl DegenerateInput
   \<and> GenerateKlemmGraph
     (build_network_klemm (\<lambda>n k l s. ([{|1, 2|}, {|2|}, {||}], [[0], [0], [0]]))
        (\<lambda>E M m b s. [[1 \<mapsto> 1, 2 \<mapsto> 1], [2 \<mapsto> 1], Map.empty :: int \<rightharpoonup> real]))
     (\<lambda>w::real. w) (\<lambda>_. 0) (\<lambda>_. 0::real)
     (Some \<lparr>num_nodes = 3, clique_size = 3, clique_linkage = 1 / 2, muw = 2, beta = 0,
            seed = 42\<rparr>)
   = Inr (\<lparr>dims = [3, 2], data = [0, 1, 0, 2, 1, 2]\<rparr>, [[0], [0], [0]],
          \<lparr>dims = [3], data = [1, 1, 1]\<rparr>)
   \<and> dims \<lparr>dims = [3], data = [1, 1, 1::real]\<rparr>
      = [length (rows \<lparr>dims = [3, 2], data = [0, 1, 0, 2, 1, 2 :: 64 word]\<rparr>)]"
proof -
  let ?grow = "\<lambda>(n::int) (k::int) (l::real) (s::int).
      ([{|1, 2|}, {|2|}, {||}] :: int fset list, [[0], [0], [0]] :: int list list)"
  let ?assign = "\<lambda>(E::int fset list) (M::int list list) (m::real) (b::real) (s::int).
      [[1 \<mapsto> 1, 2 \<mapsto> 1], [2 \<mapsto> 1], Map.empty :: int \<rightharpoonup> real]"
  let ?a1 = "\<lparr>num_nodes = 3, clique_size = 3, clique_linkage = 1 / 2, muw = 2, beta = 2,
            seed = 42\<rparr>"
  let ?a2 = "\<lparr>num_nodes = 3, clique_size = 3, clique_linkage = 1 / 2, muw = 2, beta = 3 / 10,
            seed = 42\<rparr>"
  let ?a3 = "\<lparr>num_nodes = 3, clique_size = 3, clique_linkage = 1 / 2, muw = 2, beta = 0,
            seed = 42\<rparr>"
  let ?G = "GenerateKlemmGraph (build_network_klemm ?grow ?assign) (\<lambda>w::real. w) (\<lambda>_. 0)
      (\<lambda>_. 0::real)"
  let ?ea = "\<lparr>dims = [3, 2], data = [0, 1, 0, 2, 1, 2 :: 64 word]\<rparr>"
  let ?wa = "\<lparr>dims = [3], data = [1, 1, 1::real]\<rparr>"
  have h1: "beta ?a1 < 0 \<or> 1 < beta ?a1 \<or> muw ?a1 \<le> 0"
    by simp
  have h2: "\<not> invalid_grower_parameters ?a2 \<and> \<not> invalid_weight_parameters ?a2
       \<and> degenerate_input
            (fst (?grow (num_nodes ?a2) (clique_size ?a2) (clique_linkage ?a2) (seed ?a2)))
            (snd (?grow (num_nodes ?a2) (clique_size ?a2) (clique_linkage ?a2) (seed ?a2)))
            (beta ?a2)"
    by code_simp
  have h3: "?G (Some ?a3) = Inr (?ea, [[0], [0], [0]], ?wa)"
    by code_simp
  from weight_failures_surface_nothing[of ?a1 ?grow ?assign "\<lambda>w::real. w" "\<lambda>_. 0" "\<lambda>_. 0::real"]
    h1
  have c1: "?G (Some ?a1) = Inl InvalidParameter" by blast
  from weight_failures_surface_nothing[of ?a2 ?grow ?assign "\<lambda>w::real. w" "\<lambda>_. 0" "\<lambda>_. 0::real"]
    h2
  have c2: "?G (Some ?a2) = Inl DegenerateInput" by blast
  from weight_failures_surface_nothing[of ?a3 ?grow ?assign "\<lambda>w::real. w" "\<lambda>_. 0" "\<lambda>_. 0::real"
      "build_network_klemm ?grow ?assign" "Some ?a3"] h3
  have c3: "dims ?wa = [length (rows ?ea)]" by blast
  from c1 c2 h3 c3 show ?thesis by blast
qed

end
